theory Spec2Isabelle
  imports Main "HOL-Library.AList"
begin

section \<open>JavaScript values\<close>

text \<open>
  The combobox handles untyped JavaScript data: the host's filter callback returns raw
  items of any kind, and the normalised options are plain objects. A value is modelled by
  the datatype below. An object is the list of its own properties in insertion order; an
  array is the list of its elements. Numbers are the integer-valued numbers (fractions,
  NaN and the infinities are outside the model). A function or a promise is an opaque
  identifier.
\<close>

datatype jsval =
    JUndefined
  | JNull
  | JBool bool
  | JNum int
  | JStr string
  | JArr "jsval list"
  | JObj "(string \<times> jsval) list"
  | JFun nat
  | JPromise nat

text \<open>The \<^verbatim>\<open>typeof\<close> operator.\<close>

fun typeof :: "jsval \<Rightarrow> string" where
  "typeof JUndefined = ''undefined''"
| "typeof JNull = ''object''"
| "typeof (JBool b) = ''boolean''"
| "typeof (JNum n) = ''number''"
| "typeof (JStr s) = ''string''"
| "typeof (JArr xs) = ''object''"
| "typeof (JObj kvs) = ''object''"
| "typeof (JFun f) = ''function''"
| "typeof (JPromise p) = ''object''"

text \<open>
  Reading a property \<^verbatim>\<open>v.k\<close> for the property names the combobox uses
  (\<^verbatim>\<open>value\<close>, \<^verbatim>\<open>label\<close>, \<^verbatim>\<open>icon\<close>): only a plain object can hold
  them, every other non-nullish value yields \<^verbatim>\<open>undefined\<close>. On \<^verbatim>\<open>null\<close> and
  \<^verbatim>\<open>undefined\<close> JavaScript throws a TypeError; the callers below test \<open>nullish\<close>
  first wherever the source can reach such a read.
\<close>

fun getProp :: "jsval \<Rightarrow> string \<Rightarrow> jsval" where
  "getProp (JObj kvs) k = (case map_of kvs k of Some v \<Rightarrow> v | None \<Rightarrow> JUndefined)"
| "getProp v k = JUndefined"

fun nullish :: "jsval \<Rightarrow> bool" where
  "nullish JUndefined = True"
| "nullish JNull = True"
| "nullish v = False"

text \<open>Truthiness, as \<^verbatim>\<open>||\<close> and \<^verbatim>\<open>Array.filter\<close> read a value.\<close>

fun truthy :: "jsval \<Rightarrow> bool" where
  "truthy JUndefined = False"
| "truthy JNull = False"
| "truthy (JBool b) = b"
| "truthy (JNum n) = (n \<noteq> 0)"
| "truthy (JStr s) = (s \<noteq> [])"
| "truthy v = True"

text \<open>
  An error thrown by the code: \<^verbatim>\<open>new Error(message)\<close>, or the TypeError of the
  engine (its message is engine specific and left out).
\<close>

datatype error = Error string | TypeError

section \<open>Strings\<close>

text \<open>
  A string is a list of characters. \<^verbatim>\<open>trim\<close> removes white space at both ends (tab,
  line feed, vertical tab, form feed, carriage return, space, no-break space);
  \<^verbatim>\<open>toLocaleLowerCase\<close> maps the letters A to Z to lower case; \<^verbatim>\<open>includes\<close>
  looks for a contiguous substring.
\<close>

definition isWhiteSpace :: "char \<Rightarrow> bool" where
  "isWhiteSpace c = (of_char c \<in> {9, 10, 11, 12, 13, 32, 160 :: nat})"

definition trim :: "string \<Rightarrow> string" where
  "trim s = rev (dropWhile isWhiteSpace (rev (dropWhile isWhiteSpace s)))"

definition lowerChar :: "char \<Rightarrow> char" where
  "lowerChar c =
     (case map_of (zip ''ABCDEFGHIJKLMNOPQRSTUVWXYZ'' ''abcdefghijklmnopqrstuvwxyz'') c of
        Some d \<Rightarrow> d
      | None \<Rightarrow> c)"

definition toLocaleLowerCase :: "string \<Rightarrow> string" where
  "toLocaleLowerCase s = map lowerChar s"

fun includes_str :: "string \<Rightarrow> string \<Rightarrow> bool" where
  "includes_str [] v = (v = [])"
| "includes_str (c # cs) v = (take (length v) (c # cs) = v \<or> includes_str cs v)"

text \<open>The decimal rendering of a number, as a template literal or \<^verbatim>\<open>String\<close> gives it.\<close>

fun natStr :: "nat \<Rightarrow> string" where
  "natStr n =
     (if n < 10 then [''0123456789'' ! n]
      else natStr (n div 10) @ [''0123456789'' ! (n mod 10)])"

declare natStr.simps [simp del]

definition intStr :: "int \<Rightarrow> string" where
  "intStr i = (if i < 0 then CHR ''-'' # natStr (nat (- i)) else natStr (nat i))"

section \<open>The helpers of data-utils\<close>

text \<open>
  Modelled from the spec: \<^verbatim>\<open>isObj\<close> of \<^verbatim>\<open>utils/data-utils\<close>, which is not among
  the sources. The spec speaks of a "structured record" and of an index that "resolves to
  a valid option": \<open>isObj\<close> holds of the plain objects, and of nothing else.
\<close>

fun isObj :: "jsval \<Rightarrow> bool" where
  "isObj (JObj kvs) = True"
| "isObj v = False"

text \<open>
  Modelled from the spec: \<^verbatim>\<open>isStrNum\<close> of \<^verbatim>\<open>utils/data-utils\<close>, which is not
  among the sources. The spec's normaliser asks whether the item "is a string or number".
\<close>

fun isStrNum :: "jsval \<Rightarrow> bool" where
  "isStrNum (JStr s) = True"
| "isStrNum (JNum n) = True"
| "isStrNum v = False"

text \<open>
  Modelled from the spec: \<^verbatim>\<open>nullStr\<close> of \<^verbatim>\<open>utils/data-utils\<close>, which is not
  among the sources. On a string or a number it is the spec's \<^verbatim>\<open>str(item)\<close>. The spec
  is silent about other arguments (only the \<^verbatim>\<open>icon\<close> of an object item can be one);
  they are taken to the empty string.
\<close>

fun nullStr :: "jsval \<Rightarrow> string" where
  "nullStr (JStr s) = s"
| "nullStr (JNum n) = intStr n"
| "nullStr v = []"

section \<open>The data of a change event\<close>

text \<open>
  \<^verbatim>\<open>getEmitData\<close> of \<^verbatim>\<open>combobox.utils\<close>. The index is \<^verbatim>\<open>null\<close> or a number;
  \<^verbatim>\<open>_options[_index]\<close> is \<^verbatim>\<open>undefined\<close> outside the array. A
  parameter that the source writes with a leading underscore (\<^verbatim>\<open>_options\<close>) has a
  prime here (\<open>options'\<close>).
\<close>

record validity =
  valid :: bool
  badInput :: bool
  valueMissing :: bool

record emit_data =
  "output" :: jsval
  validity :: validity
  empty :: bool
  rawOutput :: jsval
  bad :: bool

definition at_index :: "jsval list \<Rightarrow> int \<Rightarrow> jsval" where
  "at_index xs i = (if 0 \<le> i \<and> i < int (length xs) then xs ! nat i else JUndefined)"

definition getEmitData :: "jsval list \<Rightarrow> int option \<Rightarrow> string \<Rightarrow> emit_data" where
  "getEmitData options' index' str' =
     (let empty' = (length options' = 0);
          rawOutput' =
            (case index' of
               None \<Rightarrow> JNull
             | Some i \<Rightarrow>
                 if empty' = False \<and> isObj (at_index options' i)
                 then at_index options' i else JNull);
          bad' = (rawOutput' = JNull)
      in if bad' = True
         then \<lparr> output = JStr [],
                validity = \<lparr> valid = False,
                             badInput = (trim str' = [] \<or> empty' = True),
                             valueMissing = True \<rparr>,
                empty = empty', rawOutput = rawOutput', bad = bad' \<rparr>
         else \<lparr> output = getProp rawOutput' ''value'',
                validity = \<lparr> valid = True, badInput = False, valueMissing = False \<rparr>,
                empty = empty', rawOutput = rawOutput', bad = bad' \<rparr>)"

section \<open>Normalising options\<close>

text \<open>
  \<^verbatim>\<open>getOptionItem\<close> of \<^verbatim>\<open>combobox.utils\<close>. The object literal
  \<^verbatim>\<open>{ ...item, icon: x }\<close> copies the properties of the item and then writes
  \<^verbatim>\<open>icon\<close>, in place when the item has one and at the end otherwise. Reading
  \<^verbatim>\<open>_item.value\<close> throws a TypeError when the field mapper returned \<^verbatim>\<open>null\<close> or
  \<^verbatim>\<open>undefined\<close>.
\<close>

fun setProp :: "jsval \<Rightarrow> string \<Rightarrow> jsval \<Rightarrow> jsval" where
  "setProp (JObj kvs) k v = JObj (AList.update k v kvs)"
| "setProp x k v = x"

definition getOptionItem :: "(jsval \<Rightarrow> jsval) \<Rightarrow> jsval \<Rightarrow> error + jsval" where
  "getOptionItem func item =
     (if isStrNum item = True then
        (let tmp = JStr (nullStr item)
         in Inr (JObj [(''value'', tmp), (''label'', tmp), (''default'', tmp),
                       (''icon'', JStr [])]))
      else if isObj item then
        (let item' = func (setProp item ''icon''
                             (if getProp item ''icon'' \<noteq> JUndefined
                              then JStr (nullStr (getProp item ''icon''))
                              else JStr []))
         in if nullish item' then Inl TypeError
            else if getProp item' ''value'' = JStr [] \<or> getProp item' ''label'' = JStr []
            then Inl (Error (''getOptionItem() could not find a property name for either ''
                             @ ''value or label''))
            else Inr item')
      else Inl (Error (''getOptionItem()  expects each item to be a string, number or ''
                       @ ''object. Received '' @ typeof item)))"

text \<open>
  \<^verbatim>\<open>getRawOptions\<close> maps \<open>getOptionItem\<close> over the list; the first item that throws
  ends the map.
\<close>

fun mapItems :: "(jsval \<Rightarrow> error + jsval) \<Rightarrow> jsval list \<Rightarrow> error + jsval list" where
  "mapItems f [] = Inr []"
| "mapItems f (x # xs) =
     (case f x of
        Inl e \<Rightarrow> Inl e
      | Inr y \<Rightarrow> (case mapItems f xs of Inl e \<Rightarrow> Inl e | Inr ys \<Rightarrow> Inr (y # ys)))"

definition getRawOptions :: "(jsval \<Rightarrow> jsval) \<Rightarrow> jsval list \<Rightarrow> error + jsval list" where
  "getRawOptions func optionlist = mapItems (getOptionItem func) optionlist"

section \<open>The default debounce filter\<close>

text \<open>
  \<^verbatim>\<open>defaultFilter\<close> of \<^verbatim>\<open>combobox.utils\<close>. The test of one item is
  \<^verbatim>\<open>item.value.toLocaleLowerCase().includes(val) || (typeof item.label)\<close>; calling
  \<^verbatim>\<open>toLocaleLowerCase\<close> on a value that is not a string throws a TypeError, and so
  does reading \<^verbatim>\<open>value\<close> from \<^verbatim>\<open>null\<close> or \<^verbatim>\<open>undefined\<close>.
\<close>

definition itemTest :: "string \<Rightarrow> jsval \<Rightarrow> error + bool" where
  "itemTest val item =
     (if nullish item then Inl TypeError
      else (case getProp item ''value'' of
              JStr v \<Rightarrow> Inr (includes_str (toLocaleLowerCase v) val
                             \<or> truthy (JStr (typeof (getProp item ''label''))))
            | _ \<Rightarrow> Inl TypeError))"

fun filterItems :: "(jsval \<Rightarrow> error + bool) \<Rightarrow> jsval list \<Rightarrow> error + jsval list" where
  "filterItems t [] = Inr []"
| "filterItems t (item # items) =
     (case t item of
        Inl e \<Rightarrow> Inl e
      | Inr keep \<Rightarrow>
          (case filterItems t items of
             Inl e \<Rightarrow> Inl e
           | Inr rest \<Rightarrow> Inr (if keep then item # rest else rest)))"

definition defaultFilter :: "jsval list \<Rightarrow> jsval \<Rightarrow> jsval list \<Rightarrow> error + jsval list" where
  "defaultFilter optionList value' options' =
     (case value' of
        JStr str \<Rightarrow>
          if length optionList > 0 then
            (let val = toLocaleLowerCase (trim str)
             in if val \<noteq> [] then filterItems (itemTest val) optionList
                else Inr options')
          else Inr options'
      | _ \<Rightarrow> Inr options')"

section \<open>The component\<close>

text \<open>
  The properties of the component that its script reads. Two functions that the script
  imports are not among the sources and are taken as parameters here:
  \<open>normaliseSingleOption\<close> is \<^verbatim>\<open>getNormaliseSingleOption('', true)\<close> of
  \<^verbatim>\<open>radio-select.utils\<close>, the field mapper that \<^verbatim>\<open>getRawOptions\<close> hands to
  \<open>getOptionItem\<close>; \<open>ePre\<close> is \<^verbatim>\<open>getEpre('ComboboxInput', props.id)\<close> of
  \<^verbatim>\<open>general-utils\<close>, the prefix of the error messages. The filter callback of the host
  is a function of the query; a debounce filter that is not a function is \<open>None\<close>.
\<close>

record props =
  autoSelect :: bool
  debounceTime :: int
  debounceFilter :: "(jsval list \<Rightarrow> jsval \<Rightarrow> jsval list \<Rightarrow> error + jsval list) option"
  filter_prop :: "string \<Rightarrow> jsval"
  id_prop :: string
  loop :: bool
  required :: bool
  normaliseSingleOption :: "jsval \<Rightarrow> jsval"
  ePre :: "string \<Rightarrow> string"

text \<open>
  \<^verbatim>\<open>getFauxInputEvent\<close> of \<^verbatim>\<open>event.utils\<close>: the event that \<^verbatim>\<open>emit('change',
  ...)\<close> carries. Of the target's validity the three flags that \<open>getEmitData\<close> sets are
  kept (the other seven are constantly false), and of the target the value and the raw
  value (the tag names are constants).
\<close>

record faux_event =
  event_type :: string
  target_value :: jsval
  target_rawValue :: jsval
  target_validity :: validity

definition getFauxInputEvent :: "jsval \<Rightarrow> jsval \<Rightarrow> validity \<Rightarrow> faux_event" where
  "getFauxInputEvent value' rawValue v =
     \<lparr> event_type = ''change'',
       target_value = value',
       target_rawValue = (if typeof rawValue \<noteq> ''undefined'' then rawValue else value'),
       target_validity = v \<rparr>"

datatype emission = Change faux_event | Invalid bool

datatype timer_callback = ResetDebounce

text \<open>
  The local state of the script (its \<^verbatim>\<open>ref\<close>s), the displayed text of the input
  element (\<open>inputValue\<close>), and what the component does to the outside, each kept as a
  log: the calls of \<^verbatim>\<open>focus()\<close> on the input, the events emitted to the host, the
  queries the filter callback of the host was called with, the timers set with
  \<^verbatim>\<open>setTimeout\<close> (callback and delay), the promises that got the \<^verbatim>\<open>then\<close> and
  \<^verbatim>\<open>catch\<close> handlers, and the messages of \<^verbatim>\<open>console.error\<close>.
\<close>

record state =
  activeID :: "string option"
  activeVal :: jsval
  filterStr :: string
  fetching :: bool
  maxIndex :: int
  options :: "jsval list"
  rawOptions :: "jsval list"
  retry :: int
  selectedIndex :: "int option"
  showList :: bool
  inputValue :: jsval
  focusCalls :: nat
  emitted :: "emission list"
  filterCalls :: "string list"
  timers :: "(timer_callback \<times> int) list"
  handled :: "nat list"
  consoleErrors :: "string list"

definition getID :: "props \<Rightarrow> string \<Rightarrow> string" where
  "getID cfg block = block @ ''--'' @ id_prop cfg"

text \<open>
  \<^verbatim>\<open>emitChange\<close>. The input element is always \<^verbatim>\<open>comboboxInput.value\<close>, so the
  parameter \<^verbatim>\<open>_input\<close> is left out.
\<close>

definition emitChange :: "props \<Rightarrow> jsval list \<Rightarrow> int option \<Rightarrow> string \<Rightarrow> bool \<Rightarrow> state \<Rightarrow> state" where
  "emitChange cfg options' index' str' close' s =
     (let d = getEmitData options' index' str';
          s1 = (if close' = True
                then s\<lparr> inputValue := (if bad d = True then JStr []
                                         else getProp (rawOutput d) ''label''),
                        focusCalls := focusCalls s + 1 \<rparr>
                else s);
          s2 = s1\<lparr> activeID := (if bad d = True then None
                                 else Some (getID cfg ''item'' @ ''--''
                                            @ (case index' of None \<Rightarrow> ''null''
                                               | Some i \<Rightarrow> intStr i))),
                   activeVal := (if bad d = True then JUndefined else output d) \<rparr>;
          s3 = s2\<lparr> emitted := emitted s2
                     @ [Change (getFauxInputEvent (output d) (rawOutput d) (validity d))] \<rparr>
      in if required cfg = True
         then s3\<lparr> emitted := emitted s3 @ [Invalid (bad d)] \<rparr>
         else s3)"

definition decrement :: "props \<Rightarrow> int \<Rightarrow> state \<Rightarrow> state" where
  "decrement cfg step s =
     (if maxIndex s > -1 then
        (let s1 = (case selectedIndex s of
                     None \<Rightarrow> s\<lparr> selectedIndex := Some (maxIndex s) \<rparr>
                   | Some i \<Rightarrow>
                       (let newVal = i - step
                        in if newVal \<ge> 0 then s\<lparr> selectedIndex := Some newVal \<rparr>
                           else if loop cfg = True
                           then s\<lparr> selectedIndex := Some (maxIndex s) \<rparr>
                           else s\<lparr> selectedIndex := Some 0 \<rparr>))
         in emitChange cfg (options s1) (selectedIndex s1) (filterStr s1) False s1)
      else s)"

definition increment :: "props \<Rightarrow> int \<Rightarrow> state \<Rightarrow> state" where
  "increment cfg step s =
     (if maxIndex s > -1 then
        (let s1 = (case selectedIndex s of
                     None \<Rightarrow> s\<lparr> selectedIndex := Some (-1 + step) \<rparr>
                   | Some i \<Rightarrow>
                       (let newVal = i + step
                        in if newVal \<le> maxIndex s then s\<lparr> selectedIndex := Some newVal \<rparr>
                           else if loop cfg = True
                           then s\<lparr> selectedIndex := Some 0 \<rparr>
                           else s\<lparr> selectedIndex := Some (maxIndex s) \<rparr>))
         in emitChange cfg (options s1) (selectedIndex s1) (filterStr s1) False s1)
      else s)"

definition resetDebounce :: "state \<Rightarrow> state" where
  "resetDebounce s = s\<lparr> retry := 0 \<rparr>"

fun fireTimer :: "timer_callback \<Rightarrow> state \<Rightarrow> state" where
  "fireTimer ResetDebounce s = resetDebounce s"

text \<open>
  A function of the script that can throw returns either the error together with the
  state at the moment of the throw (the assignments made before it stay), or the final
  state.
\<close>

definition setOptions :: "props \<Rightarrow> jsval list \<Rightarrow> state \<Rightarrow> (error \<times> state) + state" where
  "setOptions cfg optionList s =
     (case getRawOptions (normaliseSingleOption cfg) optionList of
        Inl e \<Rightarrow> Inl (e, s)
      | Inr raw \<Rightarrow>
          (let s1 = s\<lparr> rawOptions := raw, options := raw,
                       maxIndex := int (length optionList) - 1 \<rparr>
           in if length optionList = 1 \<and> autoSelect cfg = True then
                (let s2 = s1\<lparr> selectedIndex := Some 0 \<rparr>
                 in Inr (emitChange cfg (options s2) (selectedIndex s2) (filterStr s2)
                           False s2))
              else if maxIndex s1 < 0 then
                Inr (emitChange cfg (options s1) (selectedIndex s1) (filterStr s1) False s1)
              else Inr s1))"

definition setOptionsThen :: "props \<Rightarrow> jsval \<Rightarrow> state \<Rightarrow> (error \<times> state) + state" where
  "setOptionsThen cfg response s =
     (case response of
        JArr xs \<Rightarrow> setOptions cfg xs (s\<lparr> fetching := False, retry := 0 \<rparr>)
      | _ \<Rightarrow> Inl (Error [], s))"

text \<open>
  The handler given to \<^verbatim>\<open>catch\<close>, with the text that the template literal makes of
  the error.
\<close>

fun errorStr :: "error \<Rightarrow> string" where
  "errorStr (Error m) = (if m = [] then ''Error'' else ''Error: '' @ m)"
| "errorStr TypeError = ''TypeError''"

definition filterFailed :: "props \<Rightarrow> string \<Rightarrow> state \<Rightarrow> state" where
  "filterFailed cfg err s =
     s\<lparr> fetching := False, retry := 0, maxIndex := -1,
        consoleErrors := consoleErrors s
          @ [ePre cfg ''handleInputKeyUp'' @ '' filter fetch failed with error: ''
             @ [CHR 0x22] @ err @ [CHR 0x22]] \<rparr>"

text \<open>
  The promise settles: a fulfilled one runs \<open>setOptionsThen\<close>, and what that throws goes
  to the \<^verbatim>\<open>catch\<close> handler; a rejected one goes there at once.
\<close>

definition promiseFulfilled :: "props \<Rightarrow> jsval \<Rightarrow> state \<Rightarrow> state" where
  "promiseFulfilled cfg response s =
     (case setOptionsThen cfg response s of
        Inl (e, s') \<Rightarrow> filterFailed cfg (errorStr e) s'
      | Inr s' \<Rightarrow> s')"

definition promiseRejected :: "props \<Rightarrow> string \<Rightarrow> state \<Rightarrow> state" where
  "promiseRejected cfg reason s = filterFailed cfg reason s"

text \<open>
  \<open>bouncingFilter\<close> is set before the component mounts: the \<^verbatim>\<open>debounceFilter\<close>
  property when it is a function, \<open>defaultFilter\<close> otherwise.
\<close>

definition bouncingFilter :: "props \<Rightarrow> jsval list \<Rightarrow> jsval \<Rightarrow> jsval list \<Rightarrow> error + jsval list" where
  "bouncingFilter cfg = (case debounceFilter cfg of Some f \<Rightarrow> f | None \<Rightarrow> defaultFilter)"

text \<open>\<^verbatim>\<open>getOptionList\<close>; \<open>now\<close> is what \<^verbatim>\<open>Date.now()\<close> returns.\<close>

definition getOptionList :: "props \<Rightarrow> int \<Rightarrow> string \<Rightarrow> state \<Rightarrow> (error \<times> state) + state" where
  "getOptionList cfg now str s =
     (if fetching s = False \<or> retry s < now then
        (let s1 = s\<lparr> fetching := False, retry := 0 \<rparr>;
             tmp = filter_prop cfg str;
             s2 = s1\<lparr> filterCalls := filterCalls s1 @ [str], showList := True \<rparr>
         in case tmp of
              JArr xs \<Rightarrow> setOptions cfg xs s2
            | JPromise p \<Rightarrow>
                Inr (s2\<lparr> fetching := True,
                         retry := now + debounceTime cfg,
                         timers := timers s2 @ [(ResetDebounce, debounceTime cfg)],
                         handled := handled s2 @ [p] \<rparr>)
            | _ \<Rightarrow>
                Inl (Error (ePre cfg ''handleInputKeyUp'' @ '' expects `filter` ''
                            @ ''attribute to return either an array or a Promise. ''
                            @ typeof tmp @ '' returned''), s2))
      else
        (case bouncingFilter cfg (rawOptions s) (JStr str) (options s) of
           Inl e \<Rightarrow> Inl (e, s)
         | Inr opts \<Rightarrow> Inr (s\<lparr> options := opts \<rparr>)))"

text \<open>
  A keyboard event, as far as the handlers read it: the key, the control key, the text
  of the target (\<^verbatim>\<open>event.target.value\<close>), and
  \<^verbatim>\<open>event.target.dataset.value\<close> when the target, its data set and the value exist
  and the value is a string.
\<close>

record key_event =
  key :: string
  ctrlKey :: bool
  targetValue :: string
  dataValue :: "string option"

text \<open>The loop of \<^verbatim>\<open>handleEnter\<close>, from the index \<open>a\<close> on.\<close>

fun findValue :: "jsval list \<Rightarrow> string \<Rightarrow> int \<Rightarrow> error + int option" where
  "findValue [] val a = Inr None"
| "findValue (x # xs) val a =
     (if nullish x then Inl TypeError
      else if getProp x ''value'' = JStr val then Inr (Some a)
      else findValue xs val (a + 1))"

text \<open>
  \<^verbatim>\<open>handleEnter\<close>. Its first statement reads the \<^verbatim>\<open>data-value\<close> of the event
  target, or takes the empty string when there is none.
\<close>

definition enterValue :: "key_event \<Rightarrow> string" where
  "enterValue event = (case dataValue event of Some v \<Rightarrow> v | None \<Rightarrow> [])"

definition handleEnter :: "props \<Rightarrow> key_event \<Rightarrow> state \<Rightarrow> (error \<times> state) + state" where
  "handleEnter cfg event s =
     (let val = enterValue event;
          s1 = s\<lparr> selectedIndex := None \<rparr>;
          found = (if val \<noteq> [] then findValue (rawOptions s1) val 0 else Inr None)
      in case found of
           Inl e \<Rightarrow> Inl (e, s1)
         | Inr r \<Rightarrow>
             (let s2 = (case r of Some a \<Rightarrow> s1\<lparr> selectedIndex := Some a \<rparr> | None \<Rightarrow> s1);
                  s3 = emitChange cfg (rawOptions s2) (selectedIndex s2) (filterStr s2)
                         True s2
              in Inr (s3\<lparr> showList := False \<rparr>)))"

definition handleKeyboardNav :: "props \<Rightarrow> string \<Rightarrow> bool \<Rightarrow> key_event \<Rightarrow> state \<Rightarrow> (error \<times> state) + state" where
  "handleKeyboardNav cfg key' ctrl event s =
     (let step = (if ctrl = True then 5 else 1)
      in if maxIndex s > -1 then
           (if key' = ''ArrowDown'' \<or> key' = ''Down'' then Inr (increment cfg step s)
            else if key' = ''ArrowUp'' \<or> key' = ''Up'' then Inr (decrement cfg step s)
            else if key' = ''PageUp'' then Inr (decrement cfg 10 s)
            else if key' = ''PageDown'' then Inr (increment cfg 10 s)
            else if key' = ''Home'' then Inr (s\<lparr> selectedIndex := Some 0 \<rparr>)
            else if key' = ''End'' then Inr (s\<lparr> selectedIndex := Some (maxIndex s) \<rparr>)
            else if key' = ''Enter'' \<or> key' = ''Return'' then handleEnter cfg event s
            else if key' = ''Esc'' \<or> key' = ''Escape'' then
              (let s1 = s\<lparr> selectedIndex := None \<rparr>;
                   s2 = emitChange cfg (options s1) (selectedIndex s1) (filterStr s1)
                          True s1
               in Inr (s2\<lparr> showList := False \<rparr>))
            else Inr s)
         else Inr s)"

text \<open>\<^verbatim>\<open>handleOptionKeyUp\<close>, the key handler of the list.\<close>

definition handleOptionKeyUp :: "props \<Rightarrow> key_event \<Rightarrow> state \<Rightarrow> (error \<times> state) + state" where
  "handleOptionKeyUp cfg event s = handleKeyboardNav cfg (key event) (ctrlKey event) event s"

text \<open>
  \<^verbatim>\<open>isPrintableCharacter\<close> of \<^verbatim>\<open>combobox.utils\<close>: one character that the
  expression \<^verbatim>\<open>/\S| /\<close> matches (not white space, or a space), or one of the two
  editing keys.
\<close>

definition isPrintableCharacter :: "string \<Rightarrow> bool" where
  "isPrintableCharacter str =
     ((case str of
         [c] \<Rightarrow> (if isWhiteSpace c then c = CHR '' '' else True)
       | _ \<Rightarrow> False)
      \<or> str \<in> set [''Backspace'', ''Delete''])"

definition handleInputKeyUp :: "props \<Rightarrow> int \<Rightarrow> key_event \<Rightarrow> state \<Rightarrow> (error \<times> state) + state" where
  "handleInputKeyUp cfg now event s =
     (let val = targetValue event
      in if isPrintableCharacter (key event)
         then getOptionList cfg now val (s\<lparr> filterStr := val \<rparr>)
         else handleKeyboardNav cfg (key event) (ctrlKey event) event s)"

definition handleInputFocus :: "props \<Rightarrow> int \<Rightarrow> state \<Rightarrow> (error \<times> state) + state" where
  "handleInputFocus cfg now s =
     (if length (rawOptions s) > 0
      then getOptionList cfg now (filterStr s) (s\<lparr> showList := True \<rparr>)
      else Inr s)"

section \<open>The demonstration page\<close>

text \<open>
  The page \<^verbatim>\<open>App.vue\<close> mounts the combobox with \<^verbatim>\<open>auto-select\<close>, the identifier
  \<^verbatim>\<open>combobox\<close> and the filter \<^verbatim>\<open>getOptions\<close> over the Australian states; the
  other properties have their defaults. The field mapper is taken to be the identity and
  the message prefix to be the name of the method.
\<close>

definition state_item :: "string \<Rightarrow> string \<Rightarrow> jsval" where
  "state_item v l = JObj [(''value'', JStr v), (''label'', JStr l)]"

definition auStates :: "jsval list" where
  "auStates =
     [state_item ''ACT'' ''Australian Captial Territory'',
      state_item ''NSW'' ''New South Wales'',
      state_item ''NT'' ''Northern Territory'',
      state_item ''Qld'' ''Queensland'',
      state_item ''SA'' ''South Australia'',
      state_item ''Tas'' ''Tasmania'',
      state_item ''WA'' ''Western Australia'']"

definition normaliseStr :: "string \<Rightarrow> string" where
  "normaliseStr str =
     filter (\<lambda>c. c \<in> set ''abcdefghijklmnopqrstuvwxyz0123456789'') (toLocaleLowerCase str)"

definition getOptions :: "string \<Rightarrow> jsval" where
  "getOptions input =
     (let val = normaliseStr input
      in JArr (map (\<lambda>item. setProp item ''icon'' (JStr []))
                 (filter (\<lambda>item. includes_str (normaliseStr (nullStr (getProp item ''value''))) val
                                \<or> includes_str (normaliseStr (nullStr (getProp item ''label''))) val)
                    auStates)))"

definition appProps :: props where
  "appProps =
     \<lparr> autoSelect = True, debounceTime = 500, debounceFilter = None,
       filter_prop = getOptions, id_prop = ''combobox'', loop = False, required = False,
       normaliseSingleOption = (\<lambda>item. item), ePre = (\<lambda>method. method) \<rparr>"

text \<open>The state of a component that has just been mounted with an empty value.\<close>

definition initialState :: state where
  "initialState =
     \<lparr> activeID = None, activeVal = JUndefined, filterStr = [], fetching = False,
       maxIndex = -1, options = [], rawOptions = [], retry = 0, selectedIndex = None,
       showList = False, inputValue = JStr [], focusCalls = 0, emitted = [],
       filterCalls = [], timers = [], handled = [], consoleErrors = [] \<rparr>"

text \<open>
  The state after the user has typed \<^verbatim>\<open>south\<close> into the fresh component: the
  filter has answered with New South Wales and South Australia.
\<close>

definition option_item :: "string \<Rightarrow> string \<Rightarrow> jsval" where
  "option_item v l = JObj [(''value'', JStr v), (''label'', JStr l), (''icon'', JStr [])]"

definition southOptions :: "jsval list" where
  "southOptions =
     [option_item ''NSW'' ''New South Wales'', option_item ''SA'' ''South Australia'']"

definition southState :: state where
  "southState =
     initialState\<lparr> filterStr := ''south'', maxIndex := 1, options := southOptions,
                   rawOptions := southOptions, showList := True,
                   filterCalls := [''south''] \<rparr>"

text \<open>
  A host whose filter answers with a promise, and the state in which the user has typed
  \<^verbatim>\<open>sa\<close> at the time 1000 after the two options above had arrived: the call is
  in flight until the time 1500.
\<close>

definition asyncProps :: props where
  "asyncProps = appProps\<lparr> filter_prop := (\<lambda>input. JPromise 0) \<rparr>"

definition fetchingState :: state where
  "fetchingState =
     southState\<lparr> filterStr := ''sa'', fetching := True, retry := 1500,
                  filterCalls := [''south'', ''sa''],
                  timers := [(ResetDebounce, 500)], handled := [0] \<rparr>"

text \<open>A debounce filter of a host: the options whose value is the query.\<close>

definition exactFilter :: "jsval list \<Rightarrow> jsval \<Rightarrow> jsval list \<Rightarrow> error + jsval list" where
  "exactFilter optionList value' options' =
     Inr (filter (\<lambda>item. getProp item ''value'' = value') optionList)"

section \<open>Notions of the statements\<close>

text \<open>The index refers to an object of the option list.\<close>

definition refersToObject :: "jsval list \<Rightarrow> int option \<Rightarrow> bool" where
  "refersToObject options' index' =
     (case index' of
        None \<Rightarrow> False
      | Some i \<Rightarrow> 0 \<le> i \<and> i < int (length options') \<and> isObj (options' ! nat i))"

text \<open>The state that a call left behind, and whether the call returned or threw.\<close>

definition stateOf :: "(error \<times> state) + state \<Rightarrow> state" where
  "stateOf r = (case r of Inl (e, s) \<Rightarrow> s | Inr s \<Rightarrow> s)"

definition returned :: "(error \<times> state) + state \<Rightarrow> bool" where
  "returned r = (case r of Inl x \<Rightarrow> False | Inr s \<Rightarrow> True)"

text \<open>
  No element of the list is \<^verbatim>\<open>null\<close> or \<^verbatim>\<open>undefined\<close> (what
  \<open>getRawOptions\<close> returns is such a list); no option of the list has the value; the
  option at the position \<open>n\<close> is the first one that has the value.
\<close>

definition noneNullish :: "jsval list \<Rightarrow> bool" where
  "noneNullish xs = list_all (\<lambda>x. nullish x = False) xs"



section \<open>The data of a change event: properties\<close>

lemma isObj_not_null: "isObj v \<Longrightarrow> v \<noteq> JNull"
  by (cases v) simp_all

text \<open>
  C6. For every option list, index and query string: if the index refers to an object of
  the list, the data carries the validity \<open>{valid: true, badInput: false, valueMissing:
  false}\<close> and the value of that option's \<open>value\<close> field; otherwise \<open>valid\<close> is false,
  \<open>valueMissing\<close> is true, and \<open>badInput\<close> is true exactly when the trimmed query string is
  empty or the option list is empty.
\<close>

theorem getEmitData_validity:
  "(refersToObject options' index' \<longrightarrow>
      validity (getEmitData options' index' str')
        = \<lparr> valid = True, badInput = False, valueMissing = False \<rparr>
      \<and> (\<forall>i. index' = Some i \<longrightarrow>
             output (getEmitData options' index' str') = getProp (options' ! nat i) ''value''))
   \<and> (\<not> refersToObject options' index' \<longrightarrow>
        valid (validity (getEmitData options' index' str')) = False
      \<and> valueMissing (validity (getEmitData options' index' str')) = True
      \<and> badInput (validity (getEmitData options' index' str'))
          = (trim str' = [] \<or> options' = []))"
  by (cases index')
     (auto simp: refersToObject_def getEmitData_def at_index_def Let_def dest: isObj_not_null)

theorem getEmitData_validity_witness:
  "refersToObject auStates (Some 3)
   \<and> validity (getEmitData auStates (Some 3) ''qld'')
       = \<lparr> valid = True, badInput = False, valueMissing = False \<rparr>
   \<and> output (getEmitData auStates (Some 3) ''qld'') = JStr ''Qld''
   \<and> \<not> refersToObject auStates (Some 7)
   \<and> valid (validity (getEmitData auStates (Some 7) ''  '')) = False
   \<and> valueMissing (validity (getEmitData auStates (Some 7) ''  '')) = True
   \<and> badInput (validity (getEmitData auStates (Some 7) ''  '')) = True"
  using getEmitData_validity [of auStates "Some 3" "''qld''"]
        getEmitData_validity [of auStates "Some 7" "''  ''"]
  by (simp add: refersToObject_def auStates_def state_item_def trim_def isWhiteSpace_def)

section \<open>The demonstration page: evaluation\<close>

lemmas str_defs = Let_def trim_def isWhiteSpace_def toLocaleLowerCase_def lowerChar_def

lemma getOptions_south: "getOptions ''south'' = JArr southOptions"
  by code_simp

lemma getRawOptions_south: "getRawOptions (\<lambda>item. item) southOptions = Inr southOptions"
  by (simp add: Let_def getRawOptions_def getOptionItem_def southOptions_def option_item_def)

lemma length_southOptions: "length southOptions = 2"
  by (simp add: southOptions_def)

lemma setOptions_south:
  "normaliseSingleOption cfg = (\<lambda>item. item) \<Longrightarrow>
   setOptions cfg southOptions s
   = Inr (s\<lparr> rawOptions := southOptions, options := southOptions, maxIndex := 1 \<rparr>)"
  by (simp add: setOptions_def getRawOptions_south Let_def length_southOptions)

lemma identity_mapper:
  "normaliseSingleOption appProps = (\<lambda>item. item)"
  "normaliseSingleOption asyncProps = (\<lambda>item. item)"
  by (simp_all add: appProps_def asyncProps_def)

text \<open>The two example states are states of the component: key strokes lead to them.\<close>

lemma typing_south:
  "handleInputKeyUp appProps 0
     \<lparr> key = ''h'', ctrlKey = False, targetValue = ''south'', dataValue = None \<rparr>
     initialState
   = Inr southState"
proof -
  have "filter_prop appProps ''south'' = JArr southOptions"
    by (simp add: appProps_def getOptions_south)
  then show ?thesis
    by (simp add: Let_def handleInputKeyUp_def isPrintableCharacter_def isWhiteSpace_def
        getOptionList_def setOptions_south identity_mapper initialState_def
        southState_def)
qed

lemma typing_sa:
  "handleInputKeyUp asyncProps 1000
     \<lparr> key = ''a'', ctrlKey = False, targetValue = ''sa'', dataValue = None \<rparr>
     southState
   = Inr fetchingState"
  by (simp add: Let_def handleInputKeyUp_def isPrintableCharacter_def isWhiteSpace_def
      getOptionList_def asyncProps_def appProps_def initialState_def southState_def
      fetchingState_def)

lemma fetchingState_fields:
  "fetching fetchingState = True" "retry fetchingState = 1500"
  "maxIndex fetchingState = 1" "selectedIndex fetchingState = None"
  "rawOptions fetchingState = southOptions" "options fetchingState = southOptions"
  "filterCalls fetchingState = [''south'', ''sa'']"
  by (simp_all add: fetchingState_def southState_def initialState_def)

section \<open>Normalising options: properties\<close>

text \<open>
  C8, as the claim states it, fails. The claim: for every raw item that is a string or a
  number the normaliser produces the record \<open>{value: str(item), label: str(item), icon:
  ''}\<close>. The string \<^verbatim>\<open>NSW\<close> is normalised to an object that is not this record: it
  has a fourth field, \<^verbatim>\<open>default\<close>.
\<close>

theorem getOptionItem_has_default_field:
  "isStrNum (JStr ''NSW'')
   \<and> getOptionItem (\<lambda>item. item) (JStr ''NSW'')
       \<noteq> Inr (JObj [(''value'', JStr ''NSW''), (''label'', JStr ''NSW''),
                    (''icon'', JStr [])])"
  by (simp add: getOptionItem_def Let_def)

text \<open>
  C8, amended. For every raw item that is a string or a number the normaliser produces
  the record \<open>{value: str(item), label: str(item), default: str(item), icon: ''}\<close>; for
  every item that is neither a string, a number nor an object it fails with an error
  whose message ends with the \<^verbatim>\<open>typeof\<close> of the item.
\<close>

theorem getOptionItem_result:
  "(isStrNum item \<longrightarrow>
      getOptionItem func item
        = Inr (JObj [(''value'', JStr (nullStr item)), (''label'', JStr (nullStr item)),
                     (''default'', JStr (nullStr item)), (''icon'', JStr [])]))
   \<and> (\<not> isStrNum item \<and> \<not> isObj item \<longrightarrow>
        getOptionItem func item
          = Inl (Error (''getOptionItem()  expects each item to be a string, number or ''
                        @ ''object. Received '' @ typeof item)))"
  by (simp add: getOptionItem_def Let_def)

theorem getOptionItem_result_witness:
  "isStrNum (JNum 25)
   \<and> getOptionItem (\<lambda>item. item) (JNum 25)
       = Inr (JObj [(''value'', JStr ''25''), (''label'', JStr ''25''),
                    (''default'', JStr ''25''), (''icon'', JStr [])])
   \<and> \<not> isStrNum (JBool True) \<and> \<not> isObj (JBool True)
   \<and> getOptionItem (\<lambda>item. item) (JBool True)
       = Inl (Error (''getOptionItem()  expects each item to be a string, number or ''
                     @ ''object. Received boolean''))"
  using getOptionItem_result [of "JNum 25" "\<lambda>item. item"]
        getOptionItem_result [of "JBool True" "\<lambda>item. item"]
  by (simp add: intStr_def natStr.simps)

section \<open>The default debounce filter: properties\<close>

text \<open>
  What the test of one item computes: \<^verbatim>\<open>typeof item.label\<close> is never the empty
  string, so the test holds of every item whose value is a string, and the filter keeps
  the whole list.
\<close>

lemma typeof_not_empty: "typeof v \<noteq> []"
  by (cases v) simp_all

lemma itemTest_string_value:
  "getProp item ''value'' = JStr v \<Longrightarrow> itemTest val item = Inr True"
  by (cases item) (simp_all add: itemTest_def typeof_not_empty)

lemma filterItems_keeps_all:
  "\<forall>item \<in> set items. \<exists>v. getProp item ''value'' = JStr v
   \<Longrightarrow> filterItems (itemTest val) items = Inr items"
proof (induction items)
  case Nil
  then show ?case by simp
next
  case (Cons item items)
  then obtain v where "getProp item ''value'' = JStr v" by auto
  then have "itemTest val item = Inr True" by (rule itemTest_string_value)
  moreover have "filterItems (itemTest val) items = Inr items" using Cons by simp
  ultimately show ?case by simp
qed

text \<open>
  C5, evaluated on the Australian states and the query \<^verbatim>\<open>qld\<close>. The claim: given a
  non-empty option list and a non-blank query, the default filter returns exactly the
  options whose value or label contains the query, case-insensitively. The code returns
  all seven states, New South Wales among them, whose value and label do not contain the
  query.
\<close>

theorem defaultFilter_keeps_every_option:
  "defaultFilter auStates (JStr ''qld'') [] = Inr auStates
   \<and> \<not> includes_str (toLocaleLowerCase ''NSW'') ''qld''
   \<and> \<not> includes_str (toLocaleLowerCase ''New South Wales'') ''qld''"
  by (simp add: defaultFilter_def itemTest_def auStates_def state_item_def str_defs)

text \<open>The other half of the claim holds: an empty list or a blank query gives back the
  current options.\<close>

lemma defaultFilter_blank:
  "optionList = [] \<or> trim str = [] \<Longrightarrow> defaultFilter optionList (JStr str) current = Inr current"
  by (auto simp: defaultFilter_def toLocaleLowerCase_def)

section \<open>Keyboard navigation: properties\<close>

text \<open>
  C2, evaluated on the state with the two options and no selection. The claim: with loop
  mode disabled and \<open>maxIndex \<ge> 0\<close>, the selected index stays within \<open>[0, maxIndex]\<close>
  after every \<open>increment\<close> or \<open>decrement\<close> with the step 1, 5 or 10, also when the
  starting selection is none. With no selection, \<open>increment(5)\<close> (control and arrow down)
  selects the index 4, beyond the maximal index 1: the branch for no selection assigns
  \<open>step - 1\<close> and does not look at the bound, as the branch for a selection does.
\<close>

theorem increment_from_none_leaves_range:
  "maxIndex southState = 1 \<and> selectedIndex southState = None \<and> loop appProps = False
   \<and> selectedIndex (increment appProps 5 southState) = Some 4
   \<and> maxIndex (increment appProps 5 southState) = 1"
  by (simp add: increment_def emitChange_def Let_def southState_def initialState_def
      appProps_def)

text \<open>From a selection within the range, the two operations stay within the range.\<close>

lemma emitChange_selection:
  "selectedIndex (emitChange cfg os i str c s) = selectedIndex s
   \<and> maxIndex (emitChange cfg os i str c s) = maxIndex s"
  by (simp add: emitChange_def Let_def)

lemma increment_decrement_in_range:
  assumes "loop cfg = False" "0 < step" "selectedIndex s = Some i" "0 \<le> i" "i \<le> maxIndex s"
  shows "\<exists>j. selectedIndex (increment cfg step s) = Some j \<and> 0 \<le> j \<and> j \<le> maxIndex s"
    and "\<exists>j. selectedIndex (decrement cfg step s) = Some j \<and> 0 \<le> j \<and> j \<le> maxIndex s"
  using assms by (simp_all add: increment_def decrement_def emitChange_selection Let_def)

text \<open>
  C7, evaluated on the state with the two options. The claim: every navigation that
  changes the selection, Home and End among them, emits a change to the host. The Home
  key moves the selection from none to 0 and the End key moves it to 1, and neither emits
  anything: the two cases assign the index and leave, without the call of
  \<open>emitChange\<close> that the arrow keys, the page keys and Escape make.
\<close>

theorem home_and_end_emit_nothing:
  "selectedIndex southState = None
   \<and> selectedIndex (stateOf (handleKeyboardNav appProps ''Home'' False ev southState))
       = Some 0
   \<and> emitted (stateOf (handleKeyboardNav appProps ''Home'' False ev southState))
       = emitted southState
   \<and> selectedIndex (stateOf (handleKeyboardNav appProps ''End'' False ev southState))
       = Some 1
   \<and> emitted (stateOf (handleKeyboardNav appProps ''End'' False ev southState))
       = emitted southState"
  by (simp add: Let_def handleKeyboardNav_def stateOf_def southState_def initialState_def)

text \<open>The other keys of the claim do emit.\<close>

lemma emitChange_emits:
  "\<exists>e rest. emitted (emitChange cfg os i str c s) = emitted s @ Change e # rest"
  by (simp add: emitChange_def Let_def)

lemma emitChange_emits_after:
  "emitted s' = emitted s \<Longrightarrow>
   \<exists>e rest. emitted (emitChange cfg os i str c s') = emitted s @ Change e # rest"
  using emitChange_emits [of cfg os i str c s'] by simp

lemma increment_decrement_emit:
  "maxIndex s > -1 \<Longrightarrow>
   (\<exists>e rest. emitted (increment cfg step s) = emitted s @ Change e # rest)
   \<and> (\<exists>e rest. emitted (decrement cfg step s) = emitted s @ Change e # rest)"
  unfolding increment_def decrement_def Let_def
  by (cases "selectedIndex s") (simp_all add: emitChange_emits_after)

section \<open>Filter results: properties\<close>

lemma emitChange_frame:
  "rawOptions (emitChange cfg os i str c s) = rawOptions s
   \<and> options (emitChange cfg os i str c s) = options s
   \<and> fetching (emitChange cfg os i str c s) = fetching s
   \<and> retry (emitChange cfg os i str c s) = retry s
   \<and> showList (emitChange cfg os i str c s) = showList s
   \<and> filterCalls (emitChange cfg os i str c s) = filterCalls s
   \<and> timers (emitChange cfg os i str c s) = timers s"
  by (simp add: emitChange_def Let_def)

lemma mapItems_length: "mapItems f xs = Inr ys \<Longrightarrow> length ys = length xs"
  by (induction xs arbitrary: ys) (auto split: sum.splits)







section \<open>The debounce window: properties\<close>

lemma getOptionList_debounced:
  assumes "fetching s = True" and "now \<le> retry s"
  shows "getOptionList cfg now str s
         = (case bouncingFilter cfg (rawOptions s) (JStr str) (options s) of
              Inl e \<Rightarrow> Inl (e, s)
            | Inr opts \<Rightarrow> Inr (s\<lparr> options := opts \<rparr>))"
  using assms by (simp add: getOptionList_def)

text \<open>
  C3. While a filter call is in flight (\<open>fetching\<close> is true) and the current time is
  before the retry deadline, processing a new query does not invoke the filter callback
  of the host; the displayed options are what the local secondary filter makes of the
  last full option set (\<open>rawOptions\<close>), the query and the displayed options. When the
  local filter throws, the error goes to the caller and the state stays as it is.
\<close>

theorem getOptionList_debounced_no_filter_call:
  assumes "fetching s = True" and "now < retry s"
  shows "filterCalls (stateOf (getOptionList cfg now str s)) = filterCalls s
         \<and> (\<forall>opts. bouncingFilter cfg (rawOptions s) (JStr str) (options s) = Inr opts
               \<longrightarrow> returned (getOptionList cfg now str s)
                   \<and> options (stateOf (getOptionList cfg now str s)) = opts)
         \<and> (\<forall>e. bouncingFilter cfg (rawOptions s) (JStr str) (options s) = Inl e
               \<longrightarrow> getOptionList cfg now str s = Inl (e, s))"
proof -
  have "now \<le> retry s"
    using assms(2) by simp
  then show ?thesis
    using assms(1)
    by (simp add: getOptionList_debounced stateOf_def returned_def split: sum.splits)
qed

lemma bouncingFilter_south:
  "bouncingFilter asyncProps southOptions (JStr ''sa'') southOptions = Inr southOptions"
  by (simp add: bouncingFilter_def asyncProps_def appProps_def defaultFilter_def
      southOptions_def option_item_def itemTest_def str_defs)

theorem getOptionList_debounced_no_filter_call_witness:
  "fetching fetchingState = True \<and> (1200 :: int) < retry fetchingState
   \<and> filterCalls (stateOf (getOptionList asyncProps 1200 ''sa'' fetchingState))
       = [''south'', ''sa'']
   \<and> returned (getOptionList asyncProps 1200 ''sa'' fetchingState)
   \<and> options (stateOf (getOptionList asyncProps 1200 ''sa'' fetchingState)) = southOptions"
  using getOptionList_debounced_no_filter_call [of fetchingState 1200 asyncProps "''sa''"]
  by (simp add: bouncingFilter_south fetchingState_fields)

text \<open>
  C9. For every query processed during the debounce window (\<open>fetching\<close> true, the retry
  deadline not passed) only the displayed options are replaced, by the output of the
  local filter: \<open>rawOptions\<close>, \<open>maxIndex\<close>, \<open>selectedIndex\<close>, \<open>fetching\<close> and the retry
  deadline are unchanged (and so is everything else in the state). \<open>maxIndex\<close> still
  belongs to the last full result and may exceed the length of the displayed list: with
  the host's filter for an exact value and a query that no value equals, the displayed
  list is empty and \<open>maxIndex\<close> is 1.
\<close>

theorem getOptionList_debounced_frame:
  "(fetching s = True \<and> now \<le> retry s
    \<and> bouncingFilter cfg (rawOptions s) (JStr str) (options s) = Inr opts
    \<longrightarrow> getOptionList cfg now str s = Inr (s\<lparr> options := opts \<rparr>)
        \<and> rawOptions (stateOf (getOptionList cfg now str s)) = rawOptions s
        \<and> maxIndex (stateOf (getOptionList cfg now str s)) = maxIndex s
        \<and> selectedIndex (stateOf (getOptionList cfg now str s)) = selectedIndex s
        \<and> fetching (stateOf (getOptionList cfg now str s)) = fetching s
        \<and> retry (stateOf (getOptionList cfg now str s)) = retry s)
   \<and> (fetching fetchingState = True \<and> 1200 \<le> retry fetchingState
      \<and> int (length (options (stateOf
            (getOptionList (asyncProps\<lparr> debounceFilter := Some exactFilter \<rparr>) 1200 ''s''
               fetchingState))))
          < maxIndex (stateOf
              (getOptionList (asyncProps\<lparr> debounceFilter := Some exactFilter \<rparr>) 1200 ''s''
                 fetchingState)))"
proof -
  have "bouncingFilter (asyncProps\<lparr> debounceFilter := Some exactFilter \<rparr>)
          southOptions (JStr ''s'') southOptions = Inr []"
    by (simp add: bouncingFilter_def exactFilter_def southOptions_def option_item_def)
  then show ?thesis
    by (simp add: getOptionList_debounced stateOf_def fetchingState_fields)
qed

theorem getOptionList_debounced_frame_witness:
  "fetching fetchingState = True \<and> (1500 :: int) \<le> retry fetchingState
   \<and> bouncingFilter asyncProps (rawOptions fetchingState) (JStr ''sa'')
        (options fetchingState) = Inr (options fetchingState)
   \<and> getOptionList asyncProps 1500 ''sa'' fetchingState
       = Inr (fetchingState\<lparr> options := southOptions \<rparr>)
   \<and> maxIndex (stateOf (getOptionList asyncProps 1500 ''sa'' fetchingState)) = 1
   \<and> retry (stateOf (getOptionList asyncProps 1500 ''sa'' fetchingState)) = 1500"
  using getOptionList_debounced_frame [of fetchingState 1500 asyncProps "''sa''" southOptions]
  by (simp add: bouncingFilter_south fetchingState_fields stateOf_def)

section \<open>The debounce timer: properties\<close>

text \<open>
  C4, as the claim states it, fails. The claim: the timer that is set when the filter
  returns a deferred value clears the \<open>fetching\<close> flag. The host's filter answers the
  query \<^verbatim>\<open>sa\<close> with a promise; the timer set for 500 milliseconds later calls
  \<open>resetDebounce\<close>, and \<open>fetching\<close> is still true after it has fired.
\<close>

theorem resetDebounce_keeps_fetching:
  "filter_prop asyncProps ''sa'' = JPromise 0
   \<and> timers (stateOf (getOptionList asyncProps 1000 ''sa'' southState))
       = [(ResetDebounce, debounceTime asyncProps)]
   \<and> debounceTime asyncProps = 500
   \<and> fetching (fireTimer ResetDebounce
                 (stateOf (getOptionList asyncProps 1000 ''sa'' southState))) = True"
  by (simp add: getOptionList_def Let_def stateOf_def resetDebounce_def asyncProps_def
      appProps_def southState_def initialState_def)

text \<open>
  C4, amended. When the filter callback returns a deferred value, a timer is set for
  \<open>debounceTime\<close> milliseconds later that resets the retry deadline to 0 and leaves the
  \<open>fetching\<close> flag (and everything else) as it is, in whatever state it fires: with the
  deferred value resolved, rejected or still pending.
\<close>

theorem getOptionList_deferred_timer:
  assumes "fetching s = False \<or> retry s < now" and "filter_prop cfg str = JPromise p"
  shows "(\<exists>s'. getOptionList cfg now str s = Inr s'
            \<and> timers s' = timers s @ [(ResetDebounce, debounceTime cfg)]
            \<and> fetching s' = True \<and> retry s' = now + debounceTime cfg)
         \<and> fireTimer ResetDebounce t = t\<lparr> retry := 0 \<rparr>
         \<and> retry (fireTimer ResetDebounce t) = 0
         \<and> fetching (fireTimer ResetDebounce t) = fetching t"
  using assms by (auto simp: getOptionList_def Let_def resetDebounce_def)

theorem getOptionList_deferred_timer_witness:
  "fetching southState = False \<and> filter_prop asyncProps ''sa'' = JPromise 0
   \<and> (\<exists>s'. getOptionList asyncProps 1000 ''sa'' southState = Inr s'
        \<and> timers s' = [(ResetDebounce, 500)] \<and> fetching s' = True \<and> retry s' = 1500)
   \<and> retry (fireTimer ResetDebounce fetchingState) = 0
   \<and> fetching (fireTimer ResetDebounce fetchingState) = True
   \<and> fetching (fireTimer ResetDebounce
                 (promiseFulfilled asyncProps (JArr southOptions) fetchingState)) = False
   \<and> fetching (fireTimer ResetDebounce
                 (promiseRejected asyncProps ''offline'' fetchingState)) = False"
  using getOptionList_deferred_timer [of southState 1000 asyncProps "''sa''" 0 fetchingState]
        getOptionList_deferred_timer [of southState 1000 asyncProps "''sa''" 0
          "promiseFulfilled asyncProps (JArr southOptions) fetchingState"]
        getOptionList_deferred_timer [of southState 1000 asyncProps "''sa''" 0
          "promiseRejected asyncProps ''offline'' fetchingState"]
  by (simp add: asyncProps_def appProps_def southState_def initialState_def
      promiseFulfilled_def setOptionsThen_def setOptions_south promiseRejected_def
      filterFailed_def fetchingState_fields)

section \<open>The Enter key: properties\<close>

lemma getOptionItem_not_nullish: "getOptionItem func item = Inr y \<Longrightarrow> nullish y = False"
  by (auto simp: getOptionItem_def Let_def split: if_splits)

lemma mapItems_noneNullish:
  "\<forall>x y. f x = Inr y \<longrightarrow> nullish y = False \<Longrightarrow> mapItems f xs = Inr ys \<Longrightarrow> noneNullish ys"
  by (induction xs arbitrary: ys) (auto simp: noneNullish_def split: sum.splits)

lemma getRawOptions_noneNullish: "getRawOptions func xs = Inr raw \<Longrightarrow> noneNullish raw"
  unfolding getRawOptions_def
  by (rule mapItems_noneNullish [of "getOptionItem func"])
     (auto dest: getOptionItem_not_nullish)












text \<open>The Enter key reaches \<open>handleEnter\<close> when there are options: \<open>maxIndex\<close> is not negative.\<close>

lemma handleKeyboardNav_enter:
  "maxIndex s > -1 \<Longrightarrow> handleKeyboardNav cfg ''Enter'' ctrl event s = handleEnter cfg event s"
  by (simp add: handleKeyboardNav_def)

end
